theory Spec2Isabelle
  imports Complex_Main
begin

section \<open>The user entity of app/database/models/ms\_schema/user.py\<close>

text \<open>
  The module declares one persisted class, \<open>UserModel\<close>, over an ORM session \<open>db\<close> and the
  password helpers of \<open>werkzeug.security\<close>. The embedding keeps the class's columns as a
  record, passes the database explicitly as a value of type \<open>db\<close>, and returns every
  exception as \<open>Inl\<close> of a sum.

  The columns that \<open>__init__\<close> always assigns carry the types its docstring gives them
  (strings and booleans); every other column is nullable and is an \<open>option\<close>.
\<close>

subsection \<open>Linked entities\<close>

text \<open>
  Modelled from the spec: the classes \<open>PersonalBackgroundModel\<close>, \<open>OrganizationModel\<close> and
  \<open>UserExtensionModel\<close> live in app/database/models/bit\_schema and are only imported here.
  The spec gives each user at most one record of each kind; a PersonalBackground and a
  UserExtension are owned by their user, an Organization only refers to one and can be left
  without. Each record is therefore its own key and the key of its user, nullable for the
  Organization alone.
\<close>

record PersonalBackgroundModel =
  pb_id :: int
  pb_user_id :: int

record OrganizationModel =
  org_id :: int
  org_user_id :: "int option"

record UserExtensionModel =
  ext_id :: int
  ext_user_id :: int

subsection \<open>The columns of \<open>UserModel\<close>\<close>

type_synonym datetime = int

record UserModel =
  id_col :: "int option"
  name :: string
  username :: string
  email :: string
  password_hash :: string
  registration_date :: real
  terms_and_conditions_checked :: bool
  is_admin :: bool
  is_email_verified :: bool
  email_verification_date :: "datetime option"
  current_mentorship_role :: "int option"
  membership_status :: "int option"
  bio :: "string option"
  location :: "string option"
  occupation :: "string option"
  current_organization :: "string option"
  slack_username :: "string option"
  social_media_links :: "string option"
  skills :: "string option"
  interests :: "string option"
  resume_url :: "string option"
  photo_url :: "string option"
  need_mentoring :: bool
  available_to_mentor :: bool

text \<open>
  A freshly allocated instance, before \<open>__init__\<close> runs: no column is set. The ten columns
  with a non-null type get a placeholder that \<open>__init__\<close> overwrites before anything reads it.
\<close>

definition new_UserModel :: UserModel where
  "new_UserModel =
     \<lparr> id_col = None, name = [], username = [], email = [], password_hash = [],
       registration_date = 0, terms_and_conditions_checked = False, is_admin = False,
       is_email_verified = False, email_verification_date = None,
       current_mentorship_role = None, membership_status = None, bio = None,
       location = None, occupation = None, current_organization = None,
       slack_username = None, social_media_links = None, skills = None, interests = None,
       resume_url = None, photo_url = None, need_mentoring = False,
       available_to_mentor = False \<rparr>"

subsection \<open>The database behind \<open>db.session\<close> and \<open>cls.query\<close>\<close>

text \<open>
  Modelled from the spec: the session object \<open>db\<close> comes from app/database/sqlalchemy\_extension,
  which is not part of the source at hand. The spec describes a relational table \<open>users\<close>
  with a surrogate id, unique username and email, and links to three related tables; save is
  insert-or-update and commits at once, delete cascades to the owned records and detaches
  the Organization, and constraint violations propagate as errors. The tables are lists of
  rows in insertion order; \<open>users_id_seq\<close> is the sequence that hands out the surrogate ids.
\<close>

record db =
  users :: "UserModel list"
  personal_backgrounds :: "PersonalBackgroundModel list"
  organizations :: "OrganizationModel list"
  user_extensions :: "UserExtensionModel list"
  users_id_seq :: int

definition empty_db :: db where
  "empty_db = \<lparr> users = [], personal_backgrounds = [], organizations = [],
                user_extensions = [], users_id_seq = 1 \<rparr>"

datatype error = IntegrityError | InvalidRequestError

text \<open>The values a column, a relationship attribute or an entry of \<open>json()\<close> can hold.\<close>

datatype val =
    VNone
  | VInt int
  | VStr string
  | VBool bool
  | VFloat real
  | VDateTime datetime
  | VBackground PersonalBackgroundModel
  | VOrganization OrganizationModel
  | VUserExtension UserExtensionModel

fun opt :: "('a \<Rightarrow> val) \<Rightarrow> 'a option \<Rightarrow> val" where
  "opt f None = VNone"
| "opt f (Some x) = f x"

text \<open>
  The three relationship attributes, each declared with \<open>uselist=False\<close>: the record of the
  related table that refers to this user, or \<open>None\<close>. A user that was never saved has no id
  and so no related record.
\<close>

definition background :: "db \<Rightarrow> UserModel \<Rightarrow> PersonalBackgroundModel option" where
  "background s self =
     (case id_col self of
        None \<Rightarrow> None
      | Some k \<Rightarrow> List.find (\<lambda>b. pb_user_id b = k) (personal_backgrounds s))"

definition organization :: "db \<Rightarrow> UserModel \<Rightarrow> OrganizationModel option" where
  "organization s self =
     (case id_col self of
        None \<Rightarrow> None
      | Some k \<Rightarrow> List.find (\<lambda>g. org_user_id g = Some k) (organizations s))"

definition user_extension :: "db \<Rightarrow> UserModel \<Rightarrow> UserExtensionModel option" where
  "user_extension s self =
     (case id_col self of
        None \<Rightarrow> None
      | Some k \<Rightarrow> List.find (\<lambda>e. ext_user_id e = k) (user_extensions s))"

text \<open>The attributes the class body declares, lines 27 to 83, by name.\<close>

definition columns :: "(string \<times> (UserModel \<Rightarrow> val)) list" where
  "columns =
     [(''id'', \<lambda>u. opt VInt (id_col u)),
      (''name'', \<lambda>u. VStr (name u)),
      (''username'', \<lambda>u. VStr (username u)),
      (''email'', \<lambda>u. VStr (email u)),
      (''password_hash'', \<lambda>u. VStr (password_hash u)),
      (''registration_date'', \<lambda>u. VFloat (registration_date u)),
      (''terms_and_conditions_checked'', \<lambda>u. VBool (terms_and_conditions_checked u)),
      (''is_admin'', \<lambda>u. VBool (is_admin u)),
      (''is_email_verified'', \<lambda>u. VBool (is_email_verified u)),
      (''email_verification_date'', \<lambda>u. opt VDateTime (email_verification_date u)),
      (''current_mentorship_role'', \<lambda>u. opt VInt (current_mentorship_role u)),
      (''membership_status'', \<lambda>u. opt VInt (membership_status u)),
      (''bio'', \<lambda>u. opt VStr (bio u)),
      (''location'', \<lambda>u. opt VStr (location u)),
      (''occupation'', \<lambda>u. opt VStr (occupation u)),
      (''current_organization'', \<lambda>u. opt VStr (current_organization u)),
      (''slack_username'', \<lambda>u. opt VStr (slack_username u)),
      (''social_media_links'', \<lambda>u. opt VStr (social_media_links u)),
      (''skills'', \<lambda>u. opt VStr (skills u)),
      (''interests'', \<lambda>u. opt VStr (interests u)),
      (''resume_url'', \<lambda>u. opt VStr (resume_url u)),
      (''photo_url'', \<lambda>u. opt VStr (photo_url u)),
      (''need_mentoring'', \<lambda>u. VBool (need_mentoring u)),
      (''available_to_mentor'', \<lambda>u. VBool (available_to_mentor u))]"

definition relationships :: "db \<Rightarrow> (string \<times> (UserModel \<Rightarrow> val)) list" where
  "relationships s =
     [(''background'', \<lambda>u. opt VBackground (background s u)),
      (''organization'', \<lambda>u. opt VOrganization (organization s u)),
      (''user_extension'', \<lambda>u. opt VUserExtension (user_extension s u))]"

text \<open>
  Modelled from the spec: the query interface of the ORM. \<open>cls.query\<close> ranges over the rows
  of the table, \<open>filter_by(key=v)\<close> keeps the rows whose attribute \<open>key\<close> equals \<open>v\<close> and
  raises when the entity has no attribute of that name, \<open>first()\<close> is the first row or
  \<open>None\<close>, \<open>all()\<close> is every row.
\<close>

definition query :: "db \<Rightarrow> UserModel list" where
  "query s = users s"

definition filter_by :: "db \<Rightarrow> UserModel list \<Rightarrow> string \<Rightarrow> val \<Rightarrow> error + UserModel list" where
  "filter_by s q key v =
     (case map_of (columns @ relationships s) key of
        None \<Rightarrow> Inl InvalidRequestError
      | Some attr \<Rightarrow> Inr (filter (\<lambda>u. attr u = v) q))"

definition first :: "'a list \<Rightarrow> 'a option" where
  "first q = (case q of [] \<Rightarrow> None | x # _ \<Rightarrow> Some x)"

definition all_rows :: "'a list \<Rightarrow> 'a list" where
  "all_rows q = q"

subsection \<open>Password hashing\<close>

text \<open>
  Modelled from the spec: \<open>generate_password_hash\<close> and \<open>check_password_hash\<close> belong to the
  werkzeug library. The spec calls the first a one-way hash, stored in place of the
  plaintext, and the second the comparison of a plaintext with a stored hash. Both are
  parameters here; the salt that the library draws at random is an argument.
\<close>

record security =
  generate_password_hash :: "string \<Rightarrow> string \<Rightarrow> string"
  check_password_hash :: "string \<Rightarrow> string \<Rightarrow> bool"

text \<open>
  One instance to evaluate with: the hash is the plaintext behind a fixed prefix, whatever
  the salt, and the check compares. It stands for the library in concrete runs only.
\<close>

definition plain_security :: security where
  "plain_security =
     \<lparr> generate_password_hash = (\<lambda>salt p. ''plain$$'' @ p),
       check_password_hash = (\<lambda>h p. h = ''plain$$'' @ p) \<rparr>"

subsection \<open>The methods of \<open>UserModel\<close>\<close>

definition set_password :: "security \<Rightarrow> string \<Rightarrow> UserModel \<Rightarrow> string \<Rightarrow> UserModel" where
  "set_password lib salt self password_plain_text =
     self\<lparr>password_hash := generate_password_hash lib salt password_plain_text\<rparr>"


definition is_empty :: "db \<Rightarrow> bool" where
  "is_empty s = (first (query s) = None)"

text \<open>
  \<open>__init__\<close>, assignment by assignment. \<open>now\<close> is what \<open>time.time()\<close> returns and \<open>s\<close> the
  database that \<open>is_empty\<close> queries.
\<close>

definition UserModel_init ::
  "security \<Rightarrow> string \<Rightarrow> real \<Rightarrow> db \<Rightarrow> string \<Rightarrow> string \<Rightarrow> string \<Rightarrow> string \<Rightarrow> bool \<Rightarrow> UserModel" where
  "UserModel_init lib salt now s name' username' password email' terms =
     (let self = new_UserModel;
          self = self\<lparr>name := name'\<rparr>;
          self = self\<lparr>username := username'\<rparr>;
          self = self\<lparr>email := email'\<rparr>;
          self = self\<lparr>terms_and_conditions_checked := terms\<rparr>;
          self = set_password lib salt self password;
          self = self\<lparr>is_admin := (if is_empty s then True else False)\<rparr>;
          self = self\<lparr>is_email_verified := False\<rparr>;
          self = self\<lparr>registration_date := now\<rparr>;
          self = self\<lparr>need_mentoring := False\<rparr>;
          self = self\<lparr>available_to_mentor := False\<rparr>
      in self)"

definition json :: "db \<Rightarrow> UserModel \<Rightarrow> (string \<times> val) list" where
  "json s self =
     [(''id'', opt VInt (id_col self)),
      (''name'', VStr (name self)),
      (''username'', VStr (username self)),
      (''password_hash'', VStr (password_hash self)),
      (''email'', VStr (email self)),
      (''terms_and_conditions_checked'', VBool (terms_and_conditions_checked self)),
      (''registration_date'', VFloat (registration_date self)),
      (''is_admin'', VBool (is_admin self)),
      (''is_email_verified'', VBool (is_email_verified self)),
      (''email_verification_date'', opt VDateTime (email_verification_date self)),
      (''current_mentorship_role'', opt VInt (current_mentorship_role self)),
      (''membership_status'', opt VInt (membership_status self)),
      (''bio'', opt VStr (bio self)),
      (''location'', opt VStr (location self)),
      (''occupation'', opt VStr (occupation self)),
      (''current_organization'', opt VOrganization (organization s self)),
      (''slack_username'', opt VStr (slack_username self)),
      (''social_media_links'', opt VStr (social_media_links self)),
      (''skills'', opt VStr (skills self)),
      (''interests'', opt VStr (interests self)),
      (''resume_url'', opt VStr (resume_url self)),
      (''photo_url'', opt VStr (photo_url self)),
      (''need_mentoring'', VBool (need_mentoring self)),
      (''available_to_mentor'', VBool (available_to_mentor self))]"

definition find_by_username :: "db \<Rightarrow> string \<Rightarrow> error + UserModel option" where
  "find_by_username s username' =
     (case filter_by s (query s) ''username'' (VStr username') of
        Inl e \<Rightarrow> Inl e
      | Inr q \<Rightarrow> Inr (first q))"

definition find_by_email :: "db \<Rightarrow> string \<Rightarrow> error + UserModel option" where
  "find_by_email s email' =
     (case filter_by s (query s) ''email'' (VStr email') of
        Inl e \<Rightarrow> Inl e
      | Inr q \<Rightarrow> Inr (first q))"

definition find_by_id :: "db \<Rightarrow> int \<Rightarrow> error + UserModel option" where
  "find_by_id s id' =
     (case filter_by s (query s) ''id'' (VInt id') of
        Inl e \<Rightarrow> Inl e
      | Inr q \<Rightarrow> Inr (first q))"

definition get_all_admins :: "db \<Rightarrow> bool \<Rightarrow> error + UserModel list" where
  "get_all_admins s is_admin' =
     (case filter_by s (query s) ''is_admin'' (VBool is_admin') of
        Inl e \<Rightarrow> Inl e
      | Inr q \<Rightarrow> Inr (all_rows q))"

definition get_all_representatives :: "db \<Rightarrow> bool \<Rightarrow> error + UserModel list" where
  "get_all_representatives s is_company_rep =
     (case filter_by s (query s) ''is_company_rep'' (VBool is_company_rep) of
        Inl e \<Rightarrow> Inl e
      | Inr q \<Rightarrow> Inr (all_rows q))"

text \<open>
  \<open>save_to_db\<close>: \<open>db.session.add(self)\<close>, then \<open>db.session.commit()\<close>. An instance without an
  id is inserted under the next id of the sequence; one with an id is the row of that id and
  is updated. The commit fails on a username or an email that another row holds, and the
  session refuses an instance whose row is gone. The instance comes back with its id.
\<close>

definition save_to_db :: "db \<Rightarrow> UserModel \<Rightarrow> error + (UserModel \<times> db)" where
  "save_to_db s self =
     (case id_col self of
        None \<Rightarrow>
          if \<exists>r \<in> set (users s). username r = username self \<or> email r = email self
          then Inl IntegrityError
          else (let self = self\<lparr>id_col := Some (users_id_seq s)\<rparr>
                in Inr (self, s\<lparr>users := users s @ [self],
                                users_id_seq := users_id_seq s + 1\<rparr>))
      | Some k \<Rightarrow>
          if \<not> (\<exists>r \<in> set (users s). id_col r = Some k)
          then Inl InvalidRequestError
          else if \<exists>r \<in> set (users s). id_col r \<noteq> Some k
                     \<and> (username r = username self \<or> email r = email self)
          then Inl IntegrityError
          else Inr (self, s\<lparr>users := map (\<lambda>r. if id_col r = Some k then self else r)
                                          (users s)\<rparr>))"

text \<open>
  \<open>delete_from_db\<close>: \<open>db.session.delete(self)\<close>, then \<open>db.session.commit()\<close>. The relationships
  \<open>background\<close> and \<open>user_extension\<close> are declared with \<open>cascade="all,delete"\<close>, so the records
  that refer to the user go with it; \<open>organization\<close> has no cascade, so the records that
  refer to the user lose the reference. An instance that is not a row of the table is
  refused.
\<close>

definition delete_from_db :: "db \<Rightarrow> UserModel \<Rightarrow> error + db" where
  "delete_from_db s self =
     (case id_col self of
        None \<Rightarrow> Inl InvalidRequestError
      | Some k \<Rightarrow>
          if \<not> (\<exists>r \<in> set (users s). id_col r = Some k)
          then Inl InvalidRequestError
          else Inr (s\<lparr>users := filter (\<lambda>r. id_col r \<noteq> Some k) (users s),
                      personal_backgrounds :=
                        filter (\<lambda>b. pb_user_id b \<noteq> k) (personal_backgrounds s),
                      organizations :=
                        map (\<lambda>g. if org_user_id g = Some k then g\<lparr>org_user_id := None\<rparr> else g)
                            (organizations s),
                      user_extensions :=
                        filter (\<lambda>e. ext_user_id e \<noteq> k) (user_extensions s)\<rparr>))"

subsection \<open>Sequences of operations\<close>



text \<open>
  The databases that saving and deleting users can produce from the empty one. The related
  tables are written by code outside this module, so they may change in any way between
  two operations on users.
\<close>

inductive reachable :: "db \<Rightarrow> bool" where
  start: "reachable empty_db"
| save: "reachable s \<Longrightarrow> save_to_db s u = Inr (u', s') \<Longrightarrow> reachable s'"
| delete: "reachable s \<Longrightarrow> delete_from_db s u = Inr s' \<Longrightarrow> reachable s'"
| linked: "reachable s \<Longrightarrow>
           reachable (s\<lparr>personal_backgrounds := bs, organizations := gs, user_extensions := es\<rparr>)"

definition table_ok :: "db \<Rightarrow> bool" where
  "table_ok s \<longleftrightarrow>
     distinct (map id_col (users s))
     \<and> (\<forall>r \<in> set (users s).
            case id_col r of None \<Rightarrow> False | Some k \<Rightarrow> k < users_id_seq s)
     \<and> distinct (map username (users s))
     \<and> distinct (map email (users s))"

text \<open>
  The life of one user object next to a database: the operations that touch its password
  or its row. A state holds the database, the object, and the plaintext and the salt that
  were last supplied for it. A save or a delete that raises changes nothing.
\<close>

datatype operation =
    Construct string real string string string string bool
  | SetPassword string string
  | Save
  | Delete

type_synonym session = "db \<times> UserModel \<times> string \<times> string"

fun step :: "security \<Rightarrow> session \<Rightarrow> operation \<Rightarrow> session" where
  "step lib (s, self, p, z) (Construct salt now n un pw em t) =
     (s, UserModel_init lib salt now s n un pw em t, pw, salt)"
| "step lib (s, self, p, z) (SetPassword salt q) = (s, set_password lib salt self q, q, salt)"
| "step lib (s, self, p, z) Save =
     (case save_to_db s self of
        Inl e \<Rightarrow> (s, self, p, z)
      | Inr (self', s') \<Rightarrow> (s', self', p, z))"
| "step lib (s, self, p, z) Delete =
     (case delete_from_db s self of
        Inl e \<Rightarrow> (s, self, p, z)
      | Inr s' \<Rightarrow> (s', self, p, z))"

definition run :: "security \<Rightarrow> session \<Rightarrow> operation list \<Rightarrow> session" where
  "run lib st ops = foldl (step lib) st ops"

definition hashed :: "security \<Rightarrow> session \<Rightarrow> bool" where
  "hashed lib st \<longleftrightarrow>
     (case st of (s, self, p, z) \<Rightarrow> password_hash self = generate_password_hash lib z p)"

subsection \<open>What a lookup returns\<close>

text \<open>
  The spec's words for the three lookups, "first match or none", as a predicate on the
  rows, the condition and the answer.
\<close>

definition first_match :: "('a \<Rightarrow> bool) \<Rightarrow> 'a list \<Rightarrow> 'a option \<Rightarrow> bool" where
  "first_match P xs r \<longleftrightarrow>
     (case r of
        None \<Rightarrow> \<forall>x \<in> set xs. \<not> P x
      | Some x \<Rightarrow> \<exists>i < length xs. x = xs ! i \<and> P x \<and> (\<forall>j < i. \<not> P (xs ! j)))"

subsection \<open>Example data\<close>

text \<open>
  Two users, constructed and saved one after the other, then one record of each related
  table attached to the first; a third sign-up reuses the second username.
\<close>

definition ada :: UserModel where
  "ada = UserModel_init plain_security ''ab'' 1700000000 empty_db ''Ada'' ''ada'' ''pw1''
           ''ada@example.org'' True"

definition db1 :: db where
  "db1 = \<lparr> users = [ada\<lparr>id_col := Some 1\<rparr>], personal_backgrounds = [], organizations = [],
           user_extensions = [], users_id_seq = 2 \<rparr>"

definition bob :: UserModel where
  "bob = UserModel_init plain_security ''cd'' 1700000060 db1 ''Bob'' ''bob'' ''pw2''
           ''bob@example.org'' True"

definition db2 :: db where
  "db2 = \<lparr> users = [ada\<lparr>id_col := Some 1\<rparr>, bob\<lparr>id_col := Some 2\<rparr>],
           personal_backgrounds = [\<lparr> pb_id = 7, pb_user_id = 1 \<rparr>],
           organizations = [\<lparr> org_id = 8, org_user_id = Some 1 \<rparr>],
           user_extensions = [\<lparr> ext_id = 9, ext_user_id = 1 \<rparr>], users_id_seq = 3 \<rparr>"


lemmas example_defs =
  save_to_db_def ada_def bob_def db1_def db2_def empty_db_def UserModel_init_def
  set_password_def new_UserModel_def is_empty_def first_def query_def plain_security_def
  Let_def

section \<open>Properties\<close>

subsection \<open>Construction\<close>

lemma init_password_hash:
  "password_hash (UserModel_init lib salt now s n un pw em t) = generate_password_hash lib salt pw"
  by (simp add: UserModel_init_def set_password_def)





subsection \<open>The first user is the administrator\<close>







subsection \<open>Unique usernames and emails\<close>

lemma distinct_map_replace:
  "distinct (map key xs) \<Longrightarrow> distinct (map g xs) \<Longrightarrow>
   \<forall>r \<in> set xs. key r \<noteq> k \<longrightarrow> g r \<noteq> g self \<Longrightarrow>
   distinct (map g (map (\<lambda>r. if key r = k then self else r) xs))"
proof (induction xs)
  case Nil
  then show ?case by simp
next
  case (Cons x xs)
  show ?case
  proof (cases "key x = k")
    case True
    with Cons.prems(1) have "\<forall>r \<in> set xs. key r \<noteq> k" by (auto simp: image_iff)
    then have same: "map (\<lambda>r. if key r = k then self else r) xs = xs"
      by (simp add: map_idI)
    from \<open>\<forall>r \<in> set xs. key r \<noteq> k\<close> Cons.prems(3) have "g self \<notin> g ` set xs" by auto
    with True same Cons.prems(2) show ?thesis by simp
  next
    case False
    from Cons.prems have ih: "distinct (map g (map (\<lambda>r. if key r = k then self else r) xs))"
      by (intro Cons.IH) auto
    from False Cons.prems(3) have "g x \<noteq> g self" by simp
    moreover from Cons.prems(2) have "g x \<notin> g ` set xs" by simp
    ultimately have notin: "g x \<notin> set (map g (map (\<lambda>r. if key r = k then self else r) xs))"
      by (simp add: image_iff)
    from False have "map g (map (\<lambda>r. if key r = k then self else r) (x # xs))
                     = g x # map g (map (\<lambda>r. if key r = k then self else r) xs)"
      by simp
    with notin ih show ?thesis
      by (simp only: distinct.simps simp_thms)
  qed
qed

lemma table_ok_iff:
  "table_ok s \<longleftrightarrow>
     distinct (map id_col (users s))
     \<and> (\<forall>r \<in> set (users s). \<exists>k. id_col r = Some k \<and> k < users_id_seq s)
     \<and> distinct (map username (users s))
     \<and> distinct (map email (users s))"
  by (auto simp: table_ok_def split: option.splits)

lemma table_ok_empty: "table_ok empty_db"
  by (simp add: table_ok_iff empty_db_def)

lemma table_ok_insert:
  assumes ok: "table_ok s" and new: "id_col u = None"
    and sv: "save_to_db s u = Inr (u', s')"
  shows "table_ok s'"
proof -
  from sv new have free: "\<forall>r \<in> set (users s). username r \<noteq> username u \<and> email r \<noteq> email u"
    and u': "u' = u\<lparr>id_col := Some (users_id_seq s)\<rparr>"
    and s': "s' = s\<lparr>users := users s @ [u'], users_id_seq := users_id_seq s + 1\<rparr>"
    by (auto simp: save_to_db_def Let_def split: if_splits)
  from ok have "Some (users_id_seq s) \<notin> id_col ` set (users s)"
    by (force simp: table_ok_iff)
  with ok free u' s' show ?thesis
    by (fastforce simp: table_ok_iff)
qed

lemma table_ok_update:
  assumes ok: "table_ok s" and old: "id_col u = Some k"
    and sv: "save_to_db s u = Inr (u', s')"
  shows "table_ok s'"
proof -
  let ?f = "\<lambda>r. if id_col r = Some k then u else r"
  from sv old have free: "\<forall>r \<in> set (users s). id_col r \<noteq> Some k \<longrightarrow>
                              username r \<noteq> username u \<and> email r \<noteq> email u"
    and s': "s' = s\<lparr>users := map ?f (users s)\<rparr>"
    by (auto simp: save_to_db_def split: if_splits)
  from s' have rows: "users s' = map ?f (users s)" and seq: "users_id_seq s' = users_id_seq s"
    by simp_all
  from old have "map id_col (map ?f (users s)) = map id_col (users s)"
    by (induction "users s") auto
  with ok rows have ids: "distinct (map id_col (users s'))"
    by (simp only: table_ok_iff)
  from ok free have "distinct (map username (map ?f (users s)))"
    by (intro distinct_map_replace) (auto simp: table_ok_iff)
  with rows have un: "distinct (map username (users s'))"
    by (simp only:)
  from ok free have "distinct (map email (map ?f (users s)))"
    by (intro distinct_map_replace) (auto simp: table_ok_iff)
  with rows have em: "distinct (map email (users s'))"
    by (simp only:)
  from ok old rows seq
  have bound: "\<forall>r \<in> set (users s'). \<exists>j. id_col r = Some j \<and> j < users_id_seq s'"
    by (auto simp: table_ok_iff)
  from ids bound un em show ?thesis
    unfolding table_ok_iff by blast
qed

lemma table_ok_save: "table_ok s \<Longrightarrow> save_to_db s u = Inr (u', s') \<Longrightarrow> table_ok s'"
  by (cases "id_col u") (auto intro: table_ok_insert table_ok_update)

lemma table_ok_delete: "table_ok s \<Longrightarrow> delete_from_db s u = Inr s' \<Longrightarrow> table_ok s'"
  by (auto simp: table_ok_iff delete_from_db_def distinct_map_filter
           split: option.splits if_splits)

lemma reachable_table_ok: "reachable s \<Longrightarrow> table_ok s"
proof (induction rule: reachable.induct)
  case start
  show ?case by (rule table_ok_empty)
next
  case (save s u u' s')
  then show ?case by (blast intro: table_ok_save)
next
  case (delete s u s')
  then show ?case by (blast intro: table_ok_delete)
next
  case (linked s bs gs es)
  then show ?case by (simp add: table_ok_iff)
qed

text \<open>
  C4. In every database reachable from the empty one, two different rows of the table of
  users differ in their username and differ in their email. A save that would break this
  raises and produces no database.
\<close>

theorem unique_username_email:
  assumes "reachable s"
    and "i < length (users s)" and "j < length (users s)" and "i \<noteq> j"
  shows "username (users s ! i) \<noteq> username (users s ! j)
         \<and> email (users s ! i) \<noteq> email (users s ! j)"
proof -
  from assms(1) have "distinct (map username (users s))" and "distinct (map email (users s))"
    by (auto dest: reachable_table_ok simp: table_ok_iff)
  with assms(2-4) show ?thesis
    by (simp add: distinct_conv_nth)
qed

lemma save_rejects_taken:
  "id_col u = None \<Longrightarrow> r \<in> set (users s) \<Longrightarrow> username r = username u \<or> email r = email u \<Longrightarrow>
   save_to_db s u = Inl IntegrityError"
  by (auto simp: save_to_db_def)

lemma save_taken_username:
  "save_to_db db2 (bob\<lparr>email := ''other@example.org''\<rparr>) = Inl IntegrityError"
  by (simp add: example_defs)

lemma save_ada: "save_to_db empty_db ada = Inr (ada\<lparr>id_col := Some 1\<rparr>, db1)"
  by (simp add: example_defs)

lemma save_bob:
  "save_to_db db1 bob
   = Inr (bob\<lparr>id_col := Some 2\<rparr>,
          db1\<lparr>users := users db1 @ [bob\<lparr>id_col := Some 2\<rparr>], users_id_seq := 3\<rparr>)"
  by (simp add: example_defs)

lemma reachable_db2: "reachable db2"
proof -
  have "reachable db1"
    using reachable.save [OF reachable.start save_ada] .
  then have "reachable (db1\<lparr>users := users db1 @ [bob\<lparr>id_col := Some 2\<rparr>], users_id_seq := 3\<rparr>)"
    using save_bob by (rule reachable.save)
  then have "reachable ((db1\<lparr>users := users db1 @ [bob\<lparr>id_col := Some 2\<rparr>], users_id_seq := 3\<rparr>)
      \<lparr>personal_backgrounds := [\<lparr> pb_id = 7, pb_user_id = 1 \<rparr>],
       organizations := [\<lparr> org_id = 8, org_user_id = Some 1 \<rparr>],
       user_extensions := [\<lparr> ext_id = 9, ext_user_id = 1 \<rparr>]\<rparr>)"
    by (rule reachable.linked)
  then show ?thesis by (simp add: db1_def db2_def)
qed

theorem unique_username_email_witness:
  "reachable db2 \<and> (0::nat) < length (users db2) \<and> (1::nat) < length (users db2)
   \<and> (0::nat) \<noteq> 1
   \<and> username (users db2 ! 0) = ''ada'' \<and> username (users db2 ! 1) = ''bob''
   \<and> username (users db2 ! 0) \<noteq> username (users db2 ! 1)
   \<and> email (users db2 ! 0) \<noteq> email (users db2 ! 1)"
proof -
  have l: "(0::nat) < length (users db2)" "(1::nat) < length (users db2)"
    by (simp_all add: db2_def)
  have n: "username (users db2 ! 0) = ''ada''" "username (users db2 ! 1) = ''bob''"
    by (simp_all add: example_defs)
  from unique_username_email [OF reachable_db2 l] reachable_db2 l n show ?thesis
    by simp
qed

subsection \<open>Passwords\<close>

lemma save_password_hash:
  "save_to_db s u = Inr (u', s') \<Longrightarrow> password_hash u' = password_hash u"
  by (auto simp: save_to_db_def Let_def split: option.splits if_splits)

lemma hashed_construct: "hashed lib (step lib st (Construct salt now n un pw em t))"
  by (cases st) (simp add: hashed_def init_password_hash)

lemma hashed_step: "hashed lib st \<Longrightarrow> hashed lib (step lib st x)"
proof (cases st)
  case (fields s self p z)
  assume h: "hashed lib st"
  show ?thesis
  proof (cases x)
    case (Construct salt now n un pw em t)
    then show ?thesis by (simp only: hashed_construct)
  next
    case (SetPassword salt q)
    with fields show ?thesis by (simp add: hashed_def set_password_def)
  next
    case Save
    show ?thesis
    proof (cases "save_to_db s self")
      case (Inl e)
      with Save fields h show ?thesis by simp
    next
      case (Inr r)
      obtain self' s' where r: "r = (self', s')" by (cases r)
      with Inr have "password_hash self' = password_hash self"
        by (simp add: save_password_hash)
      with Save fields h Inr r show ?thesis by (simp add: hashed_def)
    qed
  next
    case Delete
    with fields h show ?thesis by (auto simp: hashed_def split: sum.splits)
  qed
qed

lemma hashed_foldl: "hashed lib st \<Longrightarrow> hashed lib (foldl (step lib) st ops)"
  by (induction ops arbitrary: st) (simp_all add: hashed_step)

text \<open>
  C7. Take a hash function that never returns its argument. After a construction followed
  by any sequence of constructions, password changes, saves and deletes, the
  \<open>password_hash\<close> of the user object differs from the plaintext last supplied for it, and
  it is the library's hash of that plaintext under the salt drawn with it.
\<close>

theorem hash_not_plaintext:
  assumes oneway: "\<forall>salt p. generate_password_hash lib salt p \<noteq> p"
    and final: "run lib st (Construct salt now n un pw em t # ops) = (s, self, p, z)"
  shows "password_hash self \<noteq> p \<and> password_hash self = generate_password_hash lib z p"
proof -
  have "hashed lib (run lib st (Construct salt now n un pw em t # ops))"
    unfolding run_def by (simp only: foldl_Cons hashed_foldl hashed_construct)
  with final have "password_hash self = generate_password_hash lib z p"
    by (simp add: hashed_def)
  with oneway show ?thesis by simp
qed

theorem hash_not_plaintext_witness:
  "fst (snd (snd (run plain_security (empty_db, new_UserModel, [], [])
     [Construct ''ab'' 1700000000 ''Ada'' ''ada'' ''pw1'' ''ada@example.org'' True,
      Save, SetPassword ''cd'' ''pw2'', Save]))) = ''pw2''
   \<and> password_hash (fst (snd (run plain_security (empty_db, new_UserModel, [], [])
     [Construct ''ab'' 1700000000 ''Ada'' ''ada'' ''pw1'' ''ada@example.org'' True,
      Save, SetPassword ''cd'' ''pw2'', Save]))) \<noteq> ''pw2''"
proof -
  have o: "\<forall>salt p. generate_password_hash plain_security salt p \<noteq> p"
    by (simp add: plain_security_def)
  obtain s self p z where r: "run plain_security (empty_db, new_UserModel, [], [])
     [Construct ''ab'' 1700000000 ''Ada'' ''ada'' ''pw1'' ''ada@example.org'' True,
      Save, SetPassword ''cd'' ''pw2'', Save] = (s, self, p, z)"
    by (rule prod_cases4)
  then have "p = ''pw2''"
    by (auto simp: run_def split: sum.splits)
  with hash_not_plaintext [OF o r, THEN conjunct1] r show ?thesis
    by simp
qed



subsection \<open>Deleting a user\<close>



subsection \<open>Queries\<close>

lemma opt_VInt_eq: "opt VInt x = VInt k \<longleftrightarrow> x = Some k"
  by (cases x) simp_all

lemma first_filter: "first (filter P xs) = List.find P xs"
  by (induction xs) (simp_all add: first_def)

lemma find_by_username_find:
  "find_by_username s n = Inr (List.find (\<lambda>u. username u = n) (users s))"
  by (simp add: find_by_username_def filter_by_def columns_def relationships_def query_def
        first_filter)

lemma find_by_email_find:
  "find_by_email s n = Inr (List.find (\<lambda>u. email u = n) (users s))"
  by (simp add: find_by_email_def filter_by_def columns_def relationships_def query_def
        first_filter)

lemma find_by_id_find:
  "find_by_id s k = Inr (List.find (\<lambda>u. id_col u = Some k) (users s))"
  by (simp add: find_by_id_def filter_by_def columns_def relationships_def query_def
        first_filter opt_VInt_eq)

lemma first_match_find: "first_match P xs (List.find P xs)"
proof (cases "List.find P xs")
  case None
  then have "\<forall>x \<in> set xs. \<not> P x"
    by (simp add: find_None_iff)
  with None show ?thesis
    by (simp add: first_match_def)
next
  case (Some x)
  then have "\<exists>i < length xs. P (xs ! i) \<and> x = xs ! i \<and> (\<forall>j < i. \<not> P (xs ! j))"
    by (simp add: find_Some_iff)
  with Some show ?thesis
    by (auto simp: first_match_def)
qed

text \<open>
  C6. \<open>find_by_username\<close>, \<open>find_by_email\<close> and \<open>find_by_id\<close> never raise. Each returns the
  first row of the table that has the username, the email or the id asked for, and \<open>None\<close>
  when no row has it.
\<close>

theorem lookup_first_or_none:
  "(\<exists>r. find_by_username s n = Inr r \<and> first_match (\<lambda>u. username u = n) (users s) r)
   \<and> (\<exists>r. find_by_email s e = Inr r \<and> first_match (\<lambda>u. email u = e) (users s) r)
   \<and> (\<exists>r. find_by_id s k = Inr r \<and> first_match (\<lambda>u. id_col u = Some k) (users s) r)
   \<and> ((\<forall>u \<in> set (users s). username u \<noteq> n) \<longrightarrow> find_by_username s n = Inr None)
   \<and> ((\<forall>u \<in> set (users s). email u \<noteq> e) \<longrightarrow> find_by_email s e = Inr None)
   \<and> ((\<forall>u \<in> set (users s). id_col u \<noteq> Some k) \<longrightarrow> find_by_id s k = Inr None)"
  by (simp add: find_by_username_find find_by_email_find find_by_id_find first_match_find
        find_None_iff)

theorem lookup_first_or_none_witness:
  "find_by_username db2 ''zed'' = Inr None
   \<and> find_by_email db2 ''zed@example.org'' = Inr None
   \<and> find_by_id db2 5 = Inr None
   \<and> find_by_username db2 ''bob'' = Inr (Some (bob\<lparr>id_col := Some 2\<rparr>))"
proof -
  note t = lookup_first_or_none [of db2 "''zed''" "''zed@example.org''" 5]
  have "\<forall>u \<in> set (users db2). username u \<noteq> ''zed''"
    and "\<forall>u \<in> set (users db2). email u \<noteq> ''zed@example.org''"
    and "\<forall>u \<in> set (users db2). id_col u \<noteq> Some 5"
    by (simp_all add: example_defs)
  with t have "find_by_username db2 ''zed'' = Inr None"
    and "find_by_email db2 ''zed@example.org'' = Inr None"
    and "find_by_id db2 5 = Inr None"
    by blast+
  moreover have "find_by_username db2 ''bob'' = Inr (Some (bob\<lparr>id_col := Some 2\<rparr>))"
    by (simp add: find_by_username_find example_defs)
  ultimately show ?thesis by blast
qed

text \<open>
  C5. \<open>get_all_representatives\<close> filters on \<open>is_company_rep\<close>, which is neither a column nor
  a relationship of the class, so every call raises, whatever the database and the argument.
\<close>

theorem representatives_unknown_field:
  "''is_company_rep'' \<notin> set (map fst (columns @ relationships s))
   \<and> get_all_representatives s b = Inl InvalidRequestError"
  by (simp add: get_all_representatives_def filter_by_def columns_def relationships_def)

theorem representatives_unknown_field_witness:
  "get_all_representatives db2 True = Inl InvalidRequestError
   \<and> get_all_admins db2 True = Inr [ada\<lparr>id_col := Some 1\<rparr>]"
proof -
  have "get_all_admins db2 True = Inr [ada\<lparr>id_col := Some 1\<rparr>]"
    by (simp add: get_all_admins_def filter_by_def columns_def relationships_def all_rows_def
          example_defs)
  with representatives_unknown_field [of db2 True] show ?thesis by simp
qed

subsection \<open>Serialisation\<close>

text \<open>
  C9. Under the key \<open>current_organization\<close>, \<open>json()\<close> holds the Organization record linked to
  the user, or \<open>None\<close>. The column \<open>current_organization\<close> has no part in the result: changing
  it changes nothing in \<open>json()\<close>.
\<close>

theorem json_current_organization:
  "map_of (json s self) ''current_organization'' = Some (opt VOrganization (organization s self))
   \<and> json s (self\<lparr>current_organization := c\<rparr>) = json s self"
  by (simp add: json_def organization_def)

theorem json_current_organization_witness:
  "map_of (json db2 (ada\<lparr>id_col := Some 1, current_organization := Some ''Initech''\<rparr>))
     ''current_organization'' = Some (VOrganization \<lparr> org_id = 8, org_user_id = Some 1 \<rparr>)
   \<and> map_of (json db2 (bob\<lparr>id_col := Some 2, current_organization := Some ''Initech''\<rparr>))
     ''current_organization'' = Some VNone"
proof -
  have "organization db2 (ada\<lparr>id_col := Some 1, current_organization := Some ''Initech''\<rparr>)
        = Some \<lparr> org_id = 8, org_user_id = Some 1 \<rparr>"
    and "organization db2 (bob\<lparr>id_col := Some 2, current_organization := Some ''Initech''\<rparr>)
        = None"
    by (simp_all add: organization_def db2_def)
  with json_current_organization
         [of db2 "ada\<lparr>id_col := Some 1, current_organization := Some ''Initech''\<rparr>"]
       json_current_organization
         [of db2 "bob\<lparr>id_col := Some 2, current_organization := Some ''Initech''\<rparr>"]
  show ?thesis by simp
qed

text \<open>
  C10. Under the key \<open>password_hash\<close>, \<open>json()\<close> holds the stored hash of the user.
\<close>

theorem json_password_hash:
  "map_of (json s self) ''password_hash'' = Some (VStr (password_hash self))"
  by (simp add: json_def)

theorem json_password_hash_witness:
  "map_of (json db2 ada) ''password_hash'' = Some (VStr ''plain$$pw1'')"
  using json_password_hash [of db2 ada]
  by (simp add: ada_def init_password_hash plain_security_def)

end
